theory Spec2Isabelle
  imports Complex_Main "HOL-Library.Word" "HOL-Library.Multiset"
begin

text \<open>
  The repository is a collection of Jupyter notebooks on the Planet imagery APIs. This
  theory embeds the pieces of them that compute: the NDVI of two raster bands, the grouping
  of scene ids by acquisition date, the loading of the crop survey, the loop that polls
  for the activation of an asset, the submission and download of orders, and the list of
  download locations. The definitions come first, the properties after them.
\<close>

section \<open>Python exceptions\<close>

text \<open>
  The notebooks are Python. Every exception that the modelled code can raise is a value;
  a computation that may raise returns \<open>py_error + 'a\<close>, with \<open>Inl\<close> the exception.
\<close>

datatype py_error =
    KeyError string
  | IndexError
  | ValueError
  | FloatingPointError
  | FileNotFoundError string

section \<open>NDVI from the red and near-infrared bands\<close>

text \<open>
  The NDVI notebook reads band 3 (red) and band 4 (near-infrared) of a PlanetScope
  surface-reflectance GeoTIFF with \<^verbatim>\<open>src.read\<close>. rasterio returns the samples in the
  file's own sample type, which for these products is unsigned 16-bit: the bands are numpy
  arrays of \<^verbatim>\<open>uint16\<close>. An array is modelled as the list of its samples in row-major
  order.
\<close>

type_synonym uint16 = "16 word"

text \<open>
  The result of a float64 operation. The finite values are kept exact (a rational number,
  the rounding of the quotient to 53 bits is not modelled); the three special values of
  IEEE 754 are kept apart.
\<close>

datatype np_float = Fin rat | PInf | NInf | NaN

text \<open>
  numpy's floating-point error state (\<^verbatim>\<open>np.seterr\<close>): one mode for each of the four
  kinds of floating-point error. Only the mode \<open>Raise\<close> turns an error into an exception.
\<close>

datatype np_errmode = Ignore | Warn | Raise | Call | Print | Log

record np_errstate =
  divide_mode :: np_errmode
  over_mode :: np_errmode
  under_mode :: np_errmode
  invalid_mode :: np_errmode

definition np_default_errstate :: np_errstate where
  "np_default_errstate =
     \<lparr>divide_mode = Warn, over_mode = Warn, under_mode = Ignore, invalid_mode = Warn\<rparr>"

text \<open>\<^verbatim>\<open>np.seterr(divide='ignore', invalid='ignore')\<close>, run before the NDVI line.\<close>

definition notebook_errstate :: np_errstate where
  "notebook_errstate = np_default_errstate\<lparr>divide_mode := Ignore, invalid_mode := Ignore\<rparr>"

text \<open>\<^verbatim>\<open>a.astype(float)\<close> on a \<^verbatim>\<open>uint16\<close> sample: exact, every 16-bit value is a float64.\<close>

definition astype_float :: "uint16 \<Rightarrow> rat" where
  "astype_float w = of_nat (unat w)"

text \<open>
  float64 division of two finite operands. A zero divisor is the \<^verbatim>\<open>invalid\<close> error when
  the dividend is zero too (the result is NaN) and the \<^verbatim>\<open>divide\<close> error otherwise (the
  result is an infinity with the sign of the dividend).
\<close>

definition np_true_divide :: "np_errstate \<Rightarrow> rat \<Rightarrow> rat \<Rightarrow> py_error + np_float" where
  "np_true_divide es x y =
     (if y \<noteq> 0 then Inr (Fin (x / y))
      else if x = 0 then
        (if invalid_mode es = Raise then Inl FloatingPointError else Inr NaN)
      else
        (if divide_mode es = Raise then Inl FloatingPointError
         else Inr (if 0 < x then PInf else NInf)))"

text \<open>
  One sample of
  \<^verbatim>\<open>ndvi = (band_nir.astype(float) - band_red.astype(float)) / (band_nir + band_red)\<close>.
  The dividend is a difference of floats. The divisor \<^verbatim>\<open>band_nir + band_red\<close> is the sum
  of two \<^verbatim>\<open>uint16\<close> arrays: numpy computes it in \<^verbatim>\<open>uint16\<close>, modulo \<open>2 ^ 16\<close>, and only
  the division converts it to a float.
\<close>

definition ndvi_pixel :: "np_errstate \<Rightarrow> uint16 \<Rightarrow> uint16 \<Rightarrow> py_error + np_float" where
  "ndvi_pixel es nir red =
     np_true_divide es (astype_float nir - astype_float red) (astype_float (nir + red))"

text \<open>
  The array operation, sample by sample; with the mode \<open>Raise\<close> the first flagged
  sample raises for the whole array.
\<close>

fun ndvi_samples :: "np_errstate \<Rightarrow> (uint16 \<times> uint16) list \<Rightarrow> py_error + np_float list" where
  "ndvi_samples es [] = Inr []"
| "ndvi_samples es ((nir, red) # ps) =
     (case ndvi_pixel es nir red of
        Inl e \<Rightarrow> Inl e
      | Inr v \<Rightarrow> (case ndvi_samples es ps of Inl e \<Rightarrow> Inl e | Inr vs \<Rightarrow> Inr (v # vs)))"

text \<open>
  Both bands come from one dataset and have its shape. Arrays of different sizes are
  refused by numpy with ValueError (broadcasting of a one-sample array is not modelled).
\<close>

definition ndvi :: "np_errstate \<Rightarrow> uint16 list \<Rightarrow> uint16 list \<Rightarrow> py_error + np_float list" where
  "ndvi es band_nir band_red =
     (if length band_nir \<noteq> length band_red then Inl ValueError
      else ndvi_samples es (zip band_nir band_red))"

text \<open>
  \<^verbatim>\<open>np.isnan\<close>, and the comparison \<open>\<le>\<close> of float64: false as soon as one side is NaN.
\<close>

definition np_isnan :: "np_float \<Rightarrow> bool" where
  "np_isnan v = (v = NaN)"

fun np_less_equal :: "np_float \<Rightarrow> np_float \<Rightarrow> bool" where
  "np_less_equal NaN b = False"
| "np_less_equal a NaN = False"
| "np_less_equal NInf b = True"
| "np_less_equal a PInf = True"
| "np_less_equal (Fin x) (Fin y) = (x \<le> y)"
| "np_less_equal a b = False"

text \<open>
  \<^verbatim>\<open>np.nanmin\<close> and \<^verbatim>\<open>np.nanmax\<close> of an array reduce it with \<^verbatim>\<open>np.fmin\<close> and
  \<^verbatim>\<open>np.fmax\<close>, which return the other operand when one is NaN. An array with no sample
  has no minimum: ValueError. An array of NaN only gives NaN (with a warning).
\<close>

definition np_fmin :: "np_float \<Rightarrow> np_float \<Rightarrow> np_float" where
  "np_fmin a b = (if np_isnan b then a else if np_isnan a then b
                  else if np_less_equal a b then a else b)"

definition np_fmax :: "np_float \<Rightarrow> np_float \<Rightarrow> np_float" where
  "np_fmax a b = (if np_isnan b then a else if np_isnan a then b
                  else if np_less_equal a b then b else a)"





section \<open>Scene ids grouped by acquisition date\<close>

text \<open>
  An item of the search result is a dictionary; the grouping reads \<^verbatim>\<open>item['id']\<close> and
  \<^verbatim>\<open>item['properties']['acquired']\<close>, a timestamp such as
  \<^verbatim>\<open>2019-07-01T18:33:05.229Z\<close>.
\<close>

record item_properties =
  acquired :: string

record item =
  item_id :: string
  properties :: item_properties

text \<open>
  \<^verbatim>\<open>s.split(sep)\<close> for a separator of one character: the pieces of \<open>s\<close> between the
  separators. The result is never empty, so \<^verbatim>\<open>[0]\<close> of it never raises.
\<close>

fun split_chr :: "char \<Rightarrow> string \<Rightarrow> string list" where
  "split_chr sep [] = [[]]"
| "split_chr sep (c # cs) =
     (if c = sep then [] # split_chr sep cs
      else (case split_chr sep cs of [] \<Rightarrow> [[c]] | w # ws \<Rightarrow> (c # w) # ws))"

definition get_acquired_date :: "item \<Rightarrow> string" where
  "get_acquired_date i = hd (split_chr (CHR ''T'') (acquired (properties i)))"

definition get_date_item_ids :: "string \<Rightarrow> item list \<Rightarrow> string list" where
  "get_date_item_ids date all_items =
     map item_id (filter (\<lambda>i. get_acquired_date i = date) all_items)"

text \<open>
  \<^verbatim>\<open>get_ids_by_date\<close> builds a dictionary from the pairs \<open>(d, get_date_item_ids d items)\<close>,
  one for each element \<open>d\<close> of the set of acquired dates. The dictionary is a map; the
  order in which Python enumerates the set does not change it, since each date occurs once.
\<close>

definition get_ids_by_date :: "item list \<Rightarrow> (string \<rightharpoonup> string list)" where
  "get_ids_by_date items =
     (let acquired_dates = map get_acquired_date items;
          unique_acquired_dates = remdups acquired_dates
      in map_of (map (\<lambda>d. (d, get_date_item_ids d items)) unique_acquired_dates))"

text \<open>
  The reference the grouping is compared with, written from the description of the
  grouping and not from the code: one traversal of the items, each item appending its id
  to the group of its acquired date, the part of \<^verbatim>\<open>acquired\<close> before the first \<^verbatim>\<open>T\<close>.
  It uses none of the functions of the notebook.
\<close>

definition group_step :: "(string \<rightharpoonup> string list) \<Rightarrow> item \<Rightarrow> (string \<rightharpoonup> string list)" where
  "group_step groups i =
     (let date = takeWhile (\<lambda>c. c \<noteq> CHR ''T'') (acquired (properties i))
      in groups(date \<mapsto> (case groups date of None \<Rightarrow> [] | Some ids \<Rightarrow> ids) @ [item_id i]))"

definition single_pass_ids_by_date :: "item list \<Rightarrow> (string \<rightharpoonup> string list)" where
  "single_pass_ids_by_date items = foldl group_step Map.empty items"

section \<open>Ground-truth features of the crop survey\<close>

text \<open>
  A feature read by fiona is a dictionary with the keys \<^verbatim>\<open>type\<close>, \<^verbatim>\<open>id\<close>,
  \<^verbatim>\<open>properties\<close> and \<^verbatim>\<open>geometry\<close>. The properties are the attributes of the shapefile
  record: a dictionary from attribute names to strings, numbers or nothing. The geometry
  is left abstract (\<open>'g\<close>).
\<close>

datatype attribute = Str string | Num int | Null

record 'g feature =
  feat_type :: string
  feat_id :: string
  feat_properties :: "string \<rightharpoonup> attribute"
  geometry :: 'g

text \<open>
  The opened shapefile: its coordinate reference system, the dictionary \<^verbatim>\<open>dataset.crs\<close>,
  and its features in file order.
\<close>

record 'g survey_dataset =
  crs :: "string \<rightharpoonup> string"
  survey_features :: "'g feature list"

definition agg_classes :: "string list" where
  "agg_classes = [''G'', ''R'', ''F'', ''P'', ''T'', ''D'', ''C'', ''V'']"

text \<open>
  \<^verbatim>\<open>feat['properties']['CLASS1'] in agg_classes\<close>: KeyError when the feature has no
  attribute \<^verbatim>\<open>CLASS1\<close>; an attribute that is not a string equals no class label.
\<close>

definition is_agricultural :: "'g feature \<Rightarrow> py_error + bool" where
  "is_agricultural feat =
     (case feat_properties feat ''CLASS1'' of
        None \<Rightarrow> Inl (KeyError ''CLASS1'')
      | Some v \<Rightarrow> Inr (v \<in> set (map Str agg_classes)))"

text \<open>
  The libraries are parameters: \<open>pyproj_transform src dst\<close> is pyproj's coordinate
  transformation from the system \<open>src\<close> to the system \<open>dst\<close> on coordinates \<open>'c\<close>, and
  \<open>shapely_transform f\<close> applies a coordinate function to a geometry (shapely's
  \<^verbatim>\<open>transform\<close> between \<^verbatim>\<open>shape\<close> and \<^verbatim>\<open>mapping\<close>).
\<close>

definition define_to_wkt_projection ::
    "(string \<Rightarrow> string \<Rightarrow> 'c \<Rightarrow> 'c) \<Rightarrow> 'g survey_dataset \<Rightarrow> py_error + ('c \<Rightarrow> 'c)" where
  "define_to_wkt_projection pyproj_transform dataset =
     (case crs dataset ''init'' of
        None \<Rightarrow> Inl (KeyError ''init'')
      | Some src_proj \<Rightarrow> (let dst_proj = ''epsg:4326'' in Inr (pyproj_transform src_proj dst_proj)))"

definition project_feature ::
    "(('c \<Rightarrow> 'c) \<Rightarrow> 'g \<Rightarrow> 'g) \<Rightarrow> 'g feature \<Rightarrow> ('c \<Rightarrow> 'c) \<Rightarrow> 'g feature" where
  "project_feature shapely_transform feat projection_fcn =
     feat\<lparr>geometry := shapely_transform projection_fcn (geometry feat)\<rparr>"

text \<open>The loop of \<^verbatim>\<open>load_ground_truth\<close> over the features, \<open>features\<close> the list built so far.\<close>

fun load_features ::
    "(('c \<Rightarrow> 'c) \<Rightarrow> 'g \<Rightarrow> 'g) \<Rightarrow> ('c \<Rightarrow> 'c) \<Rightarrow> 'g feature list \<Rightarrow> 'g feature list
      \<Rightarrow> py_error + 'g feature list" where
  "load_features shapely_transform to_wkt_projection [] features = Inr features"
| "load_features shapely_transform to_wkt_projection (feat # rest) features =
     (case is_agricultural feat of
        Inl e \<Rightarrow> Inl e
      | Inr agricultural \<Rightarrow>
          (if agricultural
           then load_features shapely_transform to_wkt_projection rest
                  (features @ [project_feature shapely_transform feat to_wkt_projection])
           else load_features shapely_transform to_wkt_projection rest features))"

definition load_ground_truth ::
    "(string \<Rightarrow> string \<Rightarrow> 'c \<Rightarrow> 'c) \<Rightarrow> (('c \<Rightarrow> 'c) \<Rightarrow> 'g \<Rightarrow> 'g) \<Rightarrow> 'g survey_dataset
      \<Rightarrow> py_error + 'g feature list" where
  "load_ground_truth pyproj_transform shapely_transform survey_data =
     (case define_to_wkt_projection pyproj_transform survey_data of
        Inl e \<Rightarrow> Inl e
      | Inr to_wkt_projection \<Rightarrow>
          load_features shapely_transform to_wkt_projection (survey_features survey_data) [])"

section \<open>Polling for the activation of an asset\<close>

text \<open>
  The response of the assets URL is a dictionary from asset types to assets; an asset is a
  dictionary of which the loop reads \<^verbatim>\<open>status\<close>. The server is the sequence of its
  responses: \<open>server k\<close> answers the request number \<open>k\<close> of the loop.

  The state of the loop holds the three variables it reads or writes. \<open>analytic_asset\<close>
  was bound before the loop, to \<^verbatim>\<open>assets["analytic"]\<close> of the response fetched then.
\<close>

type_synonym asset = "string \<rightharpoonup> string"
type_synonym assets_response = "string \<rightharpoonup> asset"

record poll_state =
  asset_activated :: bool
  assets :: assets_response
  analytic_asset :: asset
  requests :: nat

text \<open>
  One turn of the loop: fetch the assets and bind \<open>assets\<close>; read the status from
  \<open>analytic_asset\<close>; sleep; set the flag when that status is \<^verbatim>\<open>active\<close>.
\<close>

definition poll_body :: "(nat \<Rightarrow> assets_response) \<Rightarrow> poll_state \<Rightarrow> py_error + poll_state" where
  "poll_body server s =
     (let s1 = s\<lparr>assets := server (requests s), requests := Suc (requests s)\<rparr>
      in case analytic_asset s1 ''status'' of
           None \<Rightarrow> Inl (KeyError ''status'')
         | Some asset_status \<Rightarrow>
             Inr (if asset_status = ''active'' then s1\<lparr>asset_activated := True\<rparr> else s1))"

text \<open>
  \<^verbatim>\<open>while asset_activated == False\<close>, with fuel: \<open>None\<close> when the loop is still running
  after \<open>fuel\<close> turns, \<open>Some\<close> of the exception or of the state at the exit otherwise.
\<close>

fun poll_loop :: "nat \<Rightarrow> (nat \<Rightarrow> assets_response) \<Rightarrow> poll_state \<Rightarrow> (py_error + poll_state) option" where
  "poll_loop fuel server s =
     (if asset_activated s then Some (Inr s)
      else (case fuel of
              0 \<Rightarrow> None
            | Suc n \<Rightarrow> (case poll_body server s of
                         Inl e \<Rightarrow> Some (Inl e)
                       | Inr s' \<Rightarrow> poll_loop n server s')))"

text \<open>
  The cells before the loop and its first line: the assets are fetched once,
  \<open>analytic_asset\<close> is taken from that response, and the flag starts false.
\<close>

definition poll_start :: "assets_response \<Rightarrow> py_error + poll_state" where
  "poll_start first_response =
     (case first_response ''analytic'' of
        None \<Rightarrow> Inl (KeyError ''analytic'')
      | Some a \<Rightarrow> Inr \<lparr>asset_activated = False, assets = first_response,
                       analytic_asset = a, requests = 0\<rparr>)"

section \<open>Submitting, awaiting and downloading the orders\<close>

text \<open>
  The Orders API is outside the repository: \<open>create_order\<close> is the answer of the service
  to an order request \<open>'r\<close>, an order description of which the notebook reads \<^verbatim>\<open>id\<close>.
  What the notebook asks of the SDK is recorded as a list of groups of calls: a call
  awaited alone is a group of one, the calls handed to one \<^verbatim>\<open>asyncio.gather\<close> are one
  group, started together.
\<close>

record order =
  order_id :: string

datatype 'r sdk_call = Create_order 'r | Wait string | Download_order string string

record 'r orders_notebook =
  list_orders :: "order list"
  order_id_list :: "string list"
  sdk_calls :: "'r sdk_call list list"

definition order_limit :: nat where
  "order_limit = 2"

text \<open>\<^verbatim>\<open>xs[i]\<close> for a literal index \<open>i \<ge> 0\<close>: IndexError past the end of the list.\<close>

definition py_index :: "'a list \<Rightarrow> nat \<Rightarrow> py_error + 'a" where
  "py_index xs i = (if i < length xs then Inr (xs ! i) else Inl IndexError)"

text \<open>
  \<^verbatim>\<open>for order_request in list_of_order_requests[:order_limit]\<close>: create the order, append
  it to \<open>list_orders\<close>.
\<close>

fun place_orders :: "('r \<Rightarrow> order) \<Rightarrow> 'r list \<Rightarrow> 'r orders_notebook \<Rightarrow> 'r orders_notebook" where
  "place_orders create_order [] nb = nb"
| "place_orders create_order (order_request # rest) nb =
     place_orders create_order rest
       (nb\<lparr>list_orders := list_orders nb @ [create_order order_request],
           sdk_calls := sdk_calls nb @ [[Create_order order_request]]\<rparr>)"

definition submit_orders ::
    "('r \<Rightarrow> order) \<Rightarrow> 'r list \<Rightarrow> 'r orders_notebook \<Rightarrow> 'r orders_notebook" where
  "submit_orders create_order list_of_order_requests nb =
     place_orders create_order (take order_limit list_of_order_requests) (nb\<lparr>list_orders := []\<rparr>)"

text \<open>\<^verbatim>\<open>for order in list_orders: order_id_list.append(order["id"])\<close>.\<close>

definition collect_order_ids :: "'r orders_notebook \<Rightarrow> 'r orders_notebook" where
  "collect_order_ids nb =
     nb\<lparr>order_id_list := foldl (\<lambda>ids order. ids @ [order_id order]) [] (list_orders nb)\<rparr>"

text \<open>
  The two cells that await \<^verbatim>\<open>asyncio.gather\<close>. Python evaluates both arguments, and so
  both subscripts, before \<^verbatim>\<open>gather\<close> starts anything.
\<close>

definition wait_for_orders :: "'r orders_notebook \<Rightarrow> py_error + 'r orders_notebook" where
  "wait_for_orders nb =
     (case py_index (order_id_list nb) 0 of
        Inl e \<Rightarrow> Inl e
      | Inr first_id \<Rightarrow>
          (case py_index (order_id_list nb) 1 of
             Inl e \<Rightarrow> Inl e
           | Inr second_id \<Rightarrow> Inr (nb\<lparr>sdk_calls := sdk_calls nb @ [[Wait first_id, Wait second_id]]\<rparr>)))"

definition download_orders :: "string \<Rightarrow> 'r orders_notebook \<Rightarrow> py_error + 'r orders_notebook" where
  "download_orders data_dir nb =
     (case py_index (order_id_list nb) 0 of
        Inl e \<Rightarrow> Inl e
      | Inr first_id \<Rightarrow>
          (case py_index (order_id_list nb) 1 of
             Inl e \<Rightarrow> Inl e
           | Inr second_id \<Rightarrow>
               Inr (nb\<lparr>sdk_calls := sdk_calls nb @
                      [[Download_order first_id data_dir, Download_order second_id data_dir]]\<rparr>)))"

text \<open>
  The cells in order, from an empty notebook state. The run stops at the first exception;
  the result is the calls made so far and the exception, if any.
\<close>

definition run_orders ::
    "('r \<Rightarrow> order) \<Rightarrow> string \<Rightarrow> 'r list \<Rightarrow> 'r sdk_call list list \<times> py_error option" where
  "run_orders create_order data_dir list_of_order_requests =
     (let nb0 = \<lparr>list_orders = [], order_id_list = [], sdk_calls = []\<rparr>;
          nb1 = collect_order_ids (submit_orders create_order list_of_order_requests nb0)
      in case wait_for_orders nb1 of
           Inl e \<Rightarrow> (sdk_calls nb1, Some e)
         | Inr nb2 \<Rightarrow>
             (case download_orders data_dir nb2 of
                Inl e \<Rightarrow> (sdk_calls nb2, Some e)
              | Inr nb3 \<Rightarrow> (sdk_calls nb3, None)))"

section \<open>Locations of the downloaded files\<close>

text \<open>\<^verbatim>\<open>os.path.join\<close> on POSIX: a component that starts with \<^verbatim>\<open>/\<close> restarts the path.\<close>

definition path_join2 :: "string \<Rightarrow> string \<Rightarrow> string" where
  "path_join2 path b =
     (if take 1 b = ''/'' then b
      else if path = [] \<or> last path = CHR ''/'' then path @ b
      else path @ ''/'' @ b)"

definition os_path_join :: "string \<Rightarrow> string list \<Rightarrow> string" where
  "os_path_join a p = foldl path_join2 a p"

text \<open>
  The globals of the notebook that \<^verbatim>\<open>get_download_locations\<close> reads and writes:
  \<open>data_dir\<close>, and the list \<open>locations\<close>, bound to \<open>[]\<close> by the line before the function.
  The manifests on disk are a map from the path of a manifest to the \<^verbatim>\<open>path\<close> entries of
  its \<^verbatim>\<open>files\<close>; opening a manifest that is not there raises.
\<close>

record download_globals =
  data_dir :: string
  locations :: "string list list"

fun append_locations ::
    "(string \<rightharpoonup> string list) \<Rightarrow> string \<Rightarrow> string list \<Rightarrow> download_globals
      \<Rightarrow> py_error option \<times> download_globals" where
  "append_locations disk download_dir [] g = (None, g)"
| "append_locations disk download_dir (oid # rest) g =
     (let manifest_file = os_path_join download_dir [oid, ''manifest.json'']
      in case disk manifest_file of
           None \<Rightarrow> (Some (FileNotFoundError manifest_file), g)
         | Some files \<Rightarrow>
             (let location = map (\<lambda>f. os_path_join (data_dir g) [oid, f]) files
              in append_locations disk download_dir rest (g\<lparr>locations := locations g @ [location]\<rparr>)))"

text \<open>
  The call returns the global list itself. The result is the returned list or the
  exception, with the globals as the call leaves them.
\<close>

definition get_download_locations ::
    "(string \<rightharpoonup> string list) \<Rightarrow> string \<Rightarrow> string list \<Rightarrow> download_globals
      \<Rightarrow> (py_error + string list list) \<times> download_globals" where
  "get_download_locations disk download_dir order_ids g =
     (case append_locations disk download_dir order_ids g of
        (Some e, g') \<Rightarrow> (Inl e, g')
      | (None, g') \<Rightarrow> (Inr (locations g'), g'))"

section \<open>The NDVI computation never raises; reductions skip NaN\<close>




text \<open>With the mode \<open>Raise\<close> the same division raises: the error state is what keeps it quiet.\<close>

lemma ndvi_pixel_raises_in_raise_mode:
  "ndvi_pixel (notebook_errstate\<lparr>invalid_mode := Raise\<rparr>) 0 0 = Inl FloatingPointError"
  by (simp add: ndvi_pixel_def np_true_divide_def astype_float_def)




lemma np_fmin_NaN_left [simp]: "np_fmin NaN b = b"
  by (simp add: np_fmin_def np_isnan_def)

lemma np_fmin_NaN_right [simp]: "np_fmin a NaN = a"
  by (simp add: np_fmin_def np_isnan_def)

lemma np_fmax_NaN_left [simp]: "np_fmax NaN b = b"
  by (simp add: np_fmax_def np_isnan_def)

lemma np_fmax_NaN_right [simp]: "np_fmax a NaN = a"
  by (simp add: np_fmax_def np_isnan_def)










text \<open>
  The division by zero in the code's own terms. The divisor is the \<^verbatim>\<open>uint16\<close> sum of the
  two samples. Where it is zero the result is NaN when the two samples are equal and an
  infinity with the sign of the dividend when they differ; where it is not zero the result
  is finite.
\<close>

lemma astype_float_eq_iff: "astype_float a = astype_float b \<longleftrightarrow> a = b"
  unfolding astype_float_def by (simp only: of_nat_eq_iff word_unat_eq_iff [symmetric])

lemma astype_float_zero_iff: "astype_float a = 0 \<longleftrightarrow> a = 0"
  unfolding astype_float_def by (simp only: of_nat_eq_0_iff unat_eq_0)

lemma ndvi_pixel_nan_iff:
  "ndvi_pixel notebook_errstate nir red = Inr NaN \<longleftrightarrow> nir + red = 0 \<and> nir = red"
  by (auto simp: ndvi_pixel_def np_true_divide_def astype_float_zero_iff astype_float_eq_iff
      notebook_errstate_def np_default_errstate_def)

lemma ndvi_pixel_infinite_iff:
  "ndvi_pixel notebook_errstate nir red \<in> {Inr PInf, Inr NInf} \<longleftrightarrow> nir + red = 0 \<and> nir \<noteq> red"
  by (auto simp: ndvi_pixel_def np_true_divide_def astype_float_zero_iff astype_float_eq_iff
      notebook_errstate_def np_default_errstate_def)







section \<open>The NDVI computation on samples whose sum passes 65535\<close>

lemma ndvi_pixel_no_wrap:
  assumes "unat nir + unat red < 65536" and "unat nir + unat red \<noteq> 0"
  shows "ndvi_pixel es nir red =
           Inr (Fin ((of_nat (unat nir) - of_nat (unat red)) / (of_nat (unat nir) + of_nat (unat red))))"
proof -
  have sum: "unat (nir + red) = unat nir + unat red"
    using assms(1) by (simp add: unat_word_ariths)
  have "(of_nat (unat (nir + red)) :: rat) = of_nat (unat nir) + of_nat (unat red)"
    unfolding sum by (rule of_nat_add)
  moreover have "(of_nat (unat (nir + red)) :: rat) \<noteq> 0"
    unfolding sum using assms(2) by (simp only: of_nat_eq_0_iff not_False_eq_True)
  ultimately show ?thesis
    unfolding ndvi_pixel_def np_true_divide_def astype_float_def by (simp only: simp_thms if_True)
qed

text \<open>
  Where the sum of the two samples fits 16 bits the notebook's value is the normalized
  difference, and it lies between \<open>-1\<close> and \<open>1\<close>.
\<close>

lemma normalized_difference_in_range:
  fixes a b :: rat
  assumes "0 \<le> a" and "0 \<le> b" and "0 < a + b"
  shows "- 1 \<le> (a - b) / (a + b) \<and> (a - b) / (a + b) \<le> 1"
  using assms by (simp add: le_divide_eq divide_le_eq)

lemma ndvi_pixel_in_range_no_wrap:
  assumes "unat nir + unat red < 65536" and "unat nir + unat red \<noteq> 0"
  shows "\<exists>q. ndvi_pixel es nir red = Inr (Fin q) \<and> - 1 \<le> q \<and> q \<le> 1"
proof -
  let ?n = "of_nat (unat nir) :: rat" and ?r = "of_nat (unat red) :: rat"
  have nonneg: "0 \<le> ?n" "0 \<le> ?r" by (rule of_nat_0_le_iff)+
  have "(0 :: rat) < of_nat (unat nir + unat red)"
    using assms(2) by (simp only: of_nat_0_less_iff neq0_conv)
  then have pos: "0 < ?n + ?r" by (simp only: of_nat_add)
  from normalized_difference_in_range [OF nonneg pos] ndvi_pixel_no_wrap [OF assms, of es]
  show ?thesis by blast
qed

text \<open>
  C1. The claim: at every pixel with a nonzero sum of the two bands the notebook's NDVI
  equals \<open>(nir - red) / (nir + red)\<close>. The code casts the dividend to float and leaves the
  divisor in \<^verbatim>\<open>uint16\<close>: at \<open>nir = 40000\<close>, \<open>red = 30000\<close> the divisor wraps to \<open>4464\<close> and
  the notebook's value is \<open>625 / 279\<close>, not \<open>1 / 7\<close>.
\<close>

theorem ndvi_wraps_at_40000_30000:
  "unat (40000 :: uint16) + unat (30000 :: uint16) \<noteq> 0
   \<and> (40000 :: uint16) + 30000 = 4464
   \<and> ndvi notebook_errstate [40000] [30000] = Inr [Fin (625 / 279)]
   \<and> Fin (625 / 279) \<noteq> Fin ((40000 - 30000) / (40000 + 30000))"
  by (simp add: ndvi_def ndvi_pixel_def np_true_divide_def astype_float_def)

text \<open>
  C2. The claim: at every pixel with both bands nonnegative and a positive sum the NDVI
  lies in \<open>[-1, 1]\<close>. At \<open>nir = 50000\<close>, \<open>red = 20000\<close> the divisor of the notebook wraps
  to \<open>4464\<close> and its value is \<open>30000 / 4464 = 625 / 93\<close>, greater than \<open>1\<close>.
\<close>

theorem ndvi_out_of_range_at_50000_20000:
  "0 < unat (50000 :: uint16) + unat (20000 :: uint16)
   \<and> (50000 :: uint16) + 20000 = 4464
   \<and> ndvi_pixel notebook_errstate 50000 20000 = Inr (Fin (625 / 93))
   \<and> \<not> (625 / 93 \<le> (1 :: rat))"
  by (simp add: ndvi_pixel_def np_true_divide_def astype_float_def)

section \<open>The grouping by date is a partition\<close>

lemma split_chr_nonempty: "split_chr sep s \<noteq> []"
  by (induction s) (auto split: list.splits)

lemma hd_split_chr: "hd (split_chr sep s) = takeWhile (\<lambda>c. c \<noteq> sep) s"
  using split_chr_nonempty [of sep]
  by (induction s) (auto split: list.splits)

lemma get_acquired_date_before_T:
  "get_acquired_date i = takeWhile (\<lambda>c. c \<noteq> CHR ''T'') (acquired (properties i))"
  by (simp add: get_acquired_date_def hd_split_chr)

lemma get_ids_by_date_lookup:
  "get_ids_by_date items d =
     (if d \<in> get_acquired_date ` set items then Some (get_date_item_ids d items) else None)"
  by (simp add: get_ids_by_date_def map_of_map_restrict restrict_map_def)

lemma dom_get_ids_by_date: "dom (get_ids_by_date items) = get_acquired_date ` set items"
  by (auto simp: get_ids_by_date_lookup dom_def)

lemma sum_filter_mset_by_key:
  assumes "finite D" and "f ` set_mset M \<subseteq> D"
  shows "(\<Sum>d\<in>D. filter_mset (\<lambda>x. f x = d) M) = M"
proof (rule multiset_eqI)
  fix x
  have "count (\<Sum>d\<in>D. filter_mset (\<lambda>x. f x = d) M) x
          = (\<Sum>d\<in>D. count (filter_mset (\<lambda>x. f x = d) M) x)"
    by (rule count_sum)
  also have "\<dots> = (\<Sum>d\<in>D. if f x = d then count M x else 0)"
    by (rule sum.cong) simp_all
  also have "\<dots> = (if f x \<in> D then count M x else 0)"
    using assms(1) by (simp add: sum.delta')
  also have "\<dots> = count M x"
  proof (cases "f x \<in> D")
    case True
    then show ?thesis by simp
  next
    case False
    with assms(2) have "x \<notin># M" by auto
    with False show ?thesis by (simp add: not_in_iff)
  qed
  finally show "count (\<Sum>d\<in>D. filter_mset (\<lambda>x. f x = d) M) x = count M x" .
qed

lemma image_mset_sum_finite:
  "finite A \<Longrightarrow> image_mset g (\<Sum>a\<in>A. h a) = (\<Sum>a\<in>A. image_mset g (h a))"
  by (induction rule: finite_induct) simp_all

lemma groups_cover_ids:
  "(\<Sum>d\<in>dom (get_ids_by_date items). mset (the (get_ids_by_date items d)))
     = mset (map item_id items)"
proof -
  let ?D = "get_acquired_date ` set items"
  have "(\<Sum>d\<in>?D. mset (the (get_ids_by_date items d)))
          = (\<Sum>d\<in>?D. image_mset item_id (filter_mset (\<lambda>i. get_acquired_date i = d) (mset items)))"
    by (rule sum.cong) (simp_all add: get_ids_by_date_lookup get_date_item_ids_def)
  also have "\<dots> = image_mset item_id (\<Sum>d\<in>?D. filter_mset (\<lambda>i. get_acquired_date i = d) (mset items))"
    by (simp add: image_mset_sum_finite)
  also have "\<dots> = image_mset item_id (mset items)"
    by (subst sum_filter_mset_by_key) simp_all
  finally show ?thesis by (simp add: dom_get_ids_by_date)
qed

lemma get_ids_by_date_snoc:
  "get_ids_by_date (items @ [i]) = group_step (get_ids_by_date items) i"
proof (rule ext)
  fix d
  have none: "filter (\<lambda>j. get_acquired_date j = get_acquired_date i) items = []"
    if "get_acquired_date i \<notin> get_acquired_date ` set items"
    using that by (auto simp: filter_empty_conv intro: rev_image_eqI)
  have "get_ids_by_date (items @ [i]) d =
          ((get_ids_by_date items)(get_acquired_date i \<mapsto>
             (case get_ids_by_date items (get_acquired_date i) of None \<Rightarrow> [] | Some ids \<Rightarrow> ids)
               @ [item_id i])) d"
    using none by (simp add: get_ids_by_date_lookup get_date_item_ids_def)
  then show "get_ids_by_date (items @ [i]) d = group_step (get_ids_by_date items) i d"
    by (simp only: group_step_def Let_def get_acquired_date_before_T)
qed

text \<open>
  C4. \<^verbatim>\<open>get_ids_by_date\<close> partitions the scene ids by acquired date, the part of
  \<^verbatim>\<open>acquired\<close> before the first \<^verbatim>\<open>T\<close>: its keys are exactly the acquired dates of the
  items; each key maps to the ids of the items of that date, in input order; every item
  has its id in the group of its own date; and the groups together hold each item's id
  once, so no item is counted in a second group.
\<close>

theorem get_ids_by_date_partitions:
  "dom (get_ids_by_date items)
     = (\<lambda>i. takeWhile (\<lambda>c. c \<noteq> CHR ''T'') (acquired (properties i))) ` set items
   \<and> (\<forall>d\<in>dom (get_ids_by_date items).
         get_ids_by_date items d
           = Some (map item_id
               (filter (\<lambda>i. takeWhile (\<lambda>c. c \<noteq> CHR ''T'') (acquired (properties i)) = d) items)))
   \<and> (\<forall>i\<in>set items. \<exists>ids. get_ids_by_date items (get_acquired_date i) = Some ids
         \<and> item_id i \<in> set ids)
   \<and> (\<Sum>d\<in>dom (get_ids_by_date items). mset (the (get_ids_by_date items d)))
         = mset (map item_id items)"
proof -
  have keys: "dom (get_ids_by_date items)
     = (\<lambda>i. takeWhile (\<lambda>c. c \<noteq> CHR ''T'') (acquired (properties i))) ` set items"
    by (simp add: dom_get_ids_by_date get_acquired_date_before_T [abs_def])
  have groups: "get_ids_by_date items d
           = Some (map item_id
               (filter (\<lambda>i. takeWhile (\<lambda>c. c \<noteq> CHR ''T'') (acquired (properties i)) = d) items))"
    if "d \<in> dom (get_ids_by_date items)" for d
    using that
    by (simp add: dom_get_ids_by_date get_ids_by_date_lookup get_date_item_ids_def
        get_acquired_date_before_T [abs_def])
  have own: "\<exists>ids. get_ids_by_date items (get_acquired_date i) = Some ids \<and> item_id i \<in> set ids"
    if "i \<in> set items" for i
    using that by (simp add: get_ids_by_date_lookup get_date_item_ids_def)
  from keys groups own groups_cover_ids [of items] show ?thesis by blast
qed

theorem get_ids_by_date_partitions_witness:
  "dom (get_ids_by_date
          [\<lparr>item_id = ''a'', properties = \<lparr>acquired = ''2019-07-01T18:33:05Z''\<rparr>\<rparr>,
           \<lparr>item_id = ''b'', properties = \<lparr>acquired = ''2019-07-02T18:30:11Z''\<rparr>\<rparr>,
           \<lparr>item_id = ''c'', properties = \<lparr>acquired = ''2019-07-01T18:33:07Z''\<rparr>\<rparr>])
     = {''2019-07-01'', ''2019-07-02''}
   \<and> get_ids_by_date
          [\<lparr>item_id = ''a'', properties = \<lparr>acquired = ''2019-07-01T18:33:05Z''\<rparr>\<rparr>,
           \<lparr>item_id = ''b'', properties = \<lparr>acquired = ''2019-07-02T18:30:11Z''\<rparr>\<rparr>,
           \<lparr>item_id = ''c'', properties = \<lparr>acquired = ''2019-07-01T18:33:07Z''\<rparr>\<rparr>]
          ''2019-07-01'' = Some [''a'', ''c'']
   \<and> get_ids_by_date
          [\<lparr>item_id = ''a'', properties = \<lparr>acquired = ''2019-07-01T18:33:05Z''\<rparr>\<rparr>,
           \<lparr>item_id = ''b'', properties = \<lparr>acquired = ''2019-07-02T18:30:11Z''\<rparr>\<rparr>,
           \<lparr>item_id = ''c'', properties = \<lparr>acquired = ''2019-07-01T18:33:07Z''\<rparr>\<rparr>]
          ''2019-07-02'' = Some [''b'']"
proof -
  let ?items = "[\<lparr>item_id = ''a'', properties = \<lparr>acquired = ''2019-07-01T18:33:05Z''\<rparr>\<rparr>,
                 \<lparr>item_id = ''b'', properties = \<lparr>acquired = ''2019-07-02T18:30:11Z''\<rparr>\<rparr>,
                 \<lparr>item_id = ''c'', properties = \<lparr>acquired = ''2019-07-01T18:33:07Z''\<rparr>\<rparr>]"
  note partition = get_ids_by_date_partitions [of ?items]
  from partition have keys: "dom (get_ids_by_date ?items) = {''2019-07-01'', ''2019-07-02''}"
    by auto
  from partition have groups: "\<forall>d\<in>dom (get_ids_by_date ?items).
      get_ids_by_date ?items d
        = Some (map item_id
            (filter (\<lambda>i. takeWhile (\<lambda>c. c \<noteq> CHR ''T'') (acquired (properties i)) = d) ?items))"
    by (elim conjE)
  have "''2019-07-01'' \<in> dom (get_ids_by_date ?items)"
    and "''2019-07-02'' \<in> dom (get_ids_by_date ?items)"
    unfolding keys by simp_all
  with groups have
    "get_ids_by_date ?items ''2019-07-01''
       = Some (map item_id
           (filter (\<lambda>i. takeWhile (\<lambda>c. c \<noteq> CHR ''T'') (acquired (properties i)) = ''2019-07-01'') ?items))"
    "get_ids_by_date ?items ''2019-07-02''
       = Some (map item_id
           (filter (\<lambda>i. takeWhile (\<lambda>c. c \<noteq> CHR ''T'') (acquired (properties i)) = ''2019-07-02'') ?items))"
    by blast+
  then have "get_ids_by_date ?items ''2019-07-01'' = Some [''a'', ''c'']"
    and "get_ids_by_date ?items ''2019-07-02'' = Some [''b'']"
    by simp_all
  with keys show ?thesis by simp
qed

text \<open>The reference on three items of two dates.\<close>

lemma single_pass_ids_by_date_example:
  "single_pass_ids_by_date
     [\<lparr>item_id = ''a'', properties = \<lparr>acquired = ''2019-07-01T18:33:05Z''\<rparr>\<rparr>,
      \<lparr>item_id = ''b'', properties = \<lparr>acquired = ''2019-07-02T18:30:11Z''\<rparr>\<rparr>,
      \<lparr>item_id = ''c'', properties = \<lparr>acquired = ''2019-07-01T18:33:07Z''\<rparr>\<rparr>]
   = [''2019-07-01'' \<mapsto> [''a'', ''c''], ''2019-07-02'' \<mapsto> [''b'']]"
  by (rule ext) (simp add: single_pass_ids_by_date_def group_step_def)

text \<open>
  C5. The dictionary that \<^verbatim>\<open>get_ids_by_date\<close> returns, built with one scan of the items
  for each distinct date, is the dictionary that a single traversal builds when each item
  appends its id to the group of the part of its \<^verbatim>\<open>acquired\<close> before the first \<^verbatim>\<open>T\<close>.
\<close>

theorem get_ids_by_date_is_single_pass_fold:
  "get_ids_by_date items = single_pass_ids_by_date items"
proof (induction items rule: rev_induct)
  case Nil
  show ?case
    by (rule ext) (simp add: get_ids_by_date_lookup single_pass_ids_by_date_def)
next
  case (snoc i items)
  then show ?case
    by (simp add: get_ids_by_date_snoc single_pass_ids_by_date_def)
qed

section \<open>Loading the ground truth keeps the agricultural classes\<close>

lemma is_agricultural_present:
  assumes "feat_properties feat ''CLASS1'' = Some v"
  shows "is_agricultural feat = Inr (v \<in> Str ` set agg_classes)"
  using assms by (simp add: is_agricultural_def)

lemma is_agricultural_missing:
  assumes "feat_properties feat ''CLASS1'' = None"
  shows "is_agricultural feat = Inl (KeyError ''CLASS1'')"
  using assms by (simp add: is_agricultural_def)

lemma load_features_filter:
  assumes "\<forall>f\<in>set feats. feat_properties f ''CLASS1'' \<noteq> None"
  shows "load_features T proj feats acc =
           Inr (acc @ map (\<lambda>f. f\<lparr>geometry := T proj (geometry f)\<rparr>)
                        (filter (\<lambda>f. feat_properties f ''CLASS1'' \<in> Some ` Str ` set agg_classes) feats))"
  using assms
proof (induction feats arbitrary: acc)
  case Nil
  show ?case by simp
next
  case (Cons feat rest)
  from Cons.prems obtain v where v: "feat_properties feat ''CLASS1'' = Some v" by auto
  from Cons.prems have rest: "\<forall>f\<in>set rest. feat_properties f ''CLASS1'' \<noteq> None" by simp
  show ?case
    using Cons.IH [OF rest]
    by (auto simp: is_agricultural_present [OF v] v project_feature_def)
qed

lemma load_features_raises:
  assumes "feat_properties feat ''CLASS1'' = None"
    and "\<forall>f\<in>set before. feat_properties f ''CLASS1'' \<noteq> None"
  shows "load_features T proj (before @ feat # rest) acc = Inl (KeyError ''CLASS1'')"
  using assms(2)
proof (induction before arbitrary: acc)
  case Nil
  show ?case by (simp add: is_agricultural_missing [OF assms(1)])
next
  case (Cons f fs)
  from Cons.prems obtain v where v: "feat_properties f ''CLASS1'' = Some v" by auto
  from Cons.prems have "\<forall>f\<in>set fs. feat_properties f ''CLASS1'' \<noteq> None" by simp
  from Cons.IH [OF this] show ?case
    by (simp add: is_agricultural_present [OF v])
qed

text \<open>
  C6. For a survey whose reference system names \<^verbatim>\<open>init\<close> and whose features all carry
  the attribute \<^verbatim>\<open>CLASS1\<close>, \<^verbatim>\<open>load_ground_truth\<close> returns the features whose
  \<^verbatim>\<open>CLASS1\<close> is one of the eight labels G, R, F, P, T, D, C, V, in input order and no
  other feature. Each returned feature is the input feature with its geometry replaced by
  the geometry transformed from the survey's system to \<^verbatim>\<open>epsg:4326\<close>; its type, id and
  properties are those of the input.
\<close>

theorem load_ground_truth_agricultural:
  assumes "crs survey_data ''init'' = Some src_proj"
    and "\<forall>f\<in>set (survey_features survey_data). feat_properties f ''CLASS1'' \<noteq> None"
  shows "load_ground_truth pyproj_transform shapely_transform survey_data =
           Inr (map (\<lambda>f. f\<lparr>geometry :=
                            shapely_transform (pyproj_transform src_proj ''epsg:4326'') (geometry f)\<rparr>)
                  (filter (\<lambda>f. feat_properties f ''CLASS1'' \<in>
                              {Some (Str ''G''), Some (Str ''R''), Some (Str ''F''), Some (Str ''P''),
                               Some (Str ''T''), Some (Str ''D''), Some (Str ''C''), Some (Str ''V'')})
                     (survey_features survey_data)))"
proof -
  have labels: "Some ` Str ` set agg_classes =
      {Some (Str ''G''), Some (Str ''R''), Some (Str ''F''), Some (Str ''P''),
       Some (Str ''T''), Some (Str ''D''), Some (Str ''C''), Some (Str ''V'')}"
    by (simp add: agg_classes_def)
  show ?thesis
    using load_features_filter [OF assms(2), of shapely_transform "pyproj_transform src_proj ''epsg:4326''" "[]"]
    by (simp add: load_ground_truth_def define_to_wkt_projection_def assms(1) labels)
qed

theorem load_ground_truth_agricultural_witness:
  "crs \<lparr>crs = [''init'' \<mapsto> ''epsg:26910''],
        survey_features =
          [\<lparr>feat_type = ''Feature'', feat_id = ''0'', feat_properties = [''CLASS1'' \<mapsto> Str ''U''], geometry = [(1::nat, 2::nat)]\<rparr>,
           \<lparr>feat_type = ''Feature'', feat_id = ''1'', feat_properties = [''CLASS1'' \<mapsto> Str ''V''], geometry = [(3, 4), (5, 6)]\<rparr>,
           \<lparr>feat_type = ''Feature'', feat_id = ''2'', feat_properties = [''CLASS1'' \<mapsto> Null], geometry = [(7, 8)]\<rparr>,
           \<lparr>feat_type = ''Feature'', feat_id = ''3'', feat_properties = [''CLASS1'' \<mapsto> Str ''G''], geometry = []\<rparr>]\<rparr>
      ''init'' = Some ''epsg:26910''
   \<and> list_all (\<lambda>f. feat_properties f ''CLASS1'' \<noteq> None)
        [\<lparr>feat_type = ''Feature'', feat_id = ''0'', feat_properties = [''CLASS1'' \<mapsto> Str ''U''], geometry = [(1::nat, 2::nat)]\<rparr>,
         \<lparr>feat_type = ''Feature'', feat_id = ''1'', feat_properties = [''CLASS1'' \<mapsto> Str ''V''], geometry = [(3, 4), (5, 6)]\<rparr>,
         \<lparr>feat_type = ''Feature'', feat_id = ''2'', feat_properties = [''CLASS1'' \<mapsto> Null], geometry = [(7, 8)]\<rparr>,
         \<lparr>feat_type = ''Feature'', feat_id = ''3'', feat_properties = [''CLASS1'' \<mapsto> Str ''G''], geometry = []\<rparr>]
   \<and> load_ground_truth (\<lambda>src dst (x, y). (y, x)) map
        \<lparr>crs = [''init'' \<mapsto> ''epsg:26910''],
         survey_features =
          [\<lparr>feat_type = ''Feature'', feat_id = ''0'', feat_properties = [''CLASS1'' \<mapsto> Str ''U''], geometry = [(1::nat, 2::nat)]\<rparr>,
           \<lparr>feat_type = ''Feature'', feat_id = ''1'', feat_properties = [''CLASS1'' \<mapsto> Str ''V''], geometry = [(3, 4), (5, 6)]\<rparr>,
           \<lparr>feat_type = ''Feature'', feat_id = ''2'', feat_properties = [''CLASS1'' \<mapsto> Null], geometry = [(7, 8)]\<rparr>,
           \<lparr>feat_type = ''Feature'', feat_id = ''3'', feat_properties = [''CLASS1'' \<mapsto> Str ''G''], geometry = []\<rparr>]\<rparr>
      = Inr [\<lparr>feat_type = ''Feature'', feat_id = ''1'', feat_properties = [''CLASS1'' \<mapsto> Str ''V''], geometry = [(4, 3), (6, 5)]\<rparr>,
             \<lparr>feat_type = ''Feature'', feat_id = ''3'', feat_properties = [''CLASS1'' \<mapsto> Str ''G''], geometry = []\<rparr>]"
  using load_ground_truth_agricultural
    [of "\<lparr>crs = [''init'' \<mapsto> ''epsg:26910''],
         survey_features =
          [\<lparr>feat_type = ''Feature'', feat_id = ''0'', feat_properties = [''CLASS1'' \<mapsto> Str ''U''], geometry = [(1::nat, 2::nat)]\<rparr>,
           \<lparr>feat_type = ''Feature'', feat_id = ''1'', feat_properties = [''CLASS1'' \<mapsto> Str ''V''], geometry = [(3, 4), (5, 6)]\<rparr>,
           \<lparr>feat_type = ''Feature'', feat_id = ''2'', feat_properties = [''CLASS1'' \<mapsto> Null], geometry = [(7, 8)]\<rparr>,
           \<lparr>feat_type = ''Feature'', feat_id = ''3'', feat_properties = [''CLASS1'' \<mapsto> Str ''G''], geometry = []\<rparr>]\<rparr>"
        "''epsg:26910''" "\<lambda>src dst (x, y). (y, x)" map]
  by simp

section \<open>The polling loop reads the status fetched before the loop\<close>

declare poll_loop.simps [simp del]

lemma poll_loop_exit: "asset_activated s \<Longrightarrow> poll_loop fuel server s = Some (Inr s)"
  by (simp add: poll_loop.simps)

lemma poll_loop_no_fuel: "\<not> asset_activated s \<Longrightarrow> poll_loop 0 server s = None"
  by (simp add: poll_loop.simps)

lemma poll_loop_turn:
  "\<not> asset_activated s \<Longrightarrow>
   poll_loop (Suc n) server s =
     (case poll_body server s of Inl e \<Rightarrow> Some (Inl e) | Inr s' \<Rightarrow> poll_loop n server s')"
  by (simp add: poll_loop.simps)

lemma poll_body_stale:
  assumes "analytic_asset s ''status'' = Some asset_status" and "asset_status \<noteq> ''active''"
  shows "poll_body server s = Inr (s\<lparr>assets := server (requests s), requests := Suc (requests s)\<rparr>)"
  using assms by (simp add: poll_body_def)

lemma poll_loop_never_exits:
  assumes "\<not> asset_activated s"
    and "analytic_asset s ''status'' = Some asset_status" and "asset_status \<noteq> ''active''"
  shows "poll_loop fuel server s = None"
  using assms
proof (induction fuel arbitrary: s)
  case 0
  then show ?case by (simp add: poll_loop_no_fuel)
next
  case (Suc n)
  let ?s' = "s\<lparr>assets := server (requests s), requests := Suc (requests s)\<rparr>"
  have body: "poll_body server s = Inr ?s'"
    using Suc.prems(2,3) by (rule poll_body_stale)
  have "poll_loop n server ?s' = None"
    using Suc.prems by (intro Suc.IH) simp_all
  with Suc.prems(1) body show ?case by (simp add: poll_loop_turn)
qed

lemma poll_loop_exits_on_stale_active:
  assumes "\<not> asset_activated s" and "analytic_asset s ''status'' = Some ''active''"
  shows "poll_loop (Suc fuel) server s =
           Some (Inr (s\<lparr>assets := server (requests s), requests := Suc (requests s),
                        asset_activated := True\<rparr>))"
  using assms by (simp add: poll_loop_turn poll_body_def poll_loop_exit)

text \<open>
  C7. The claim: the loop exits once a fetched response reports the asset active. The loop
  binds each response to \<open>assets\<close> and reads the status from \<open>analytic_asset\<close>, which no
  line of the loop binds again. With an asset that was activating before the loop and a
  server that reports it active at every request, the loop is still running after any
  number of turns.
\<close>

theorem poll_loop_ignores_active_responses:
  "poll_start [''analytic'' \<mapsto> [''status'' \<mapsto> ''activating'']]
     = Inr \<lparr>asset_activated = False, assets = [''analytic'' \<mapsto> [''status'' \<mapsto> ''activating'']],
            analytic_asset = [''status'' \<mapsto> ''activating''], requests = 0\<rparr>
   \<and> (\<forall>fuel. poll_loop fuel (\<lambda>k. [''analytic'' \<mapsto> [''status'' \<mapsto> ''active'']])
         \<lparr>asset_activated = False, assets = [''analytic'' \<mapsto> [''status'' \<mapsto> ''activating'']],
          analytic_asset = [''status'' \<mapsto> ''activating''], requests = 0\<rparr> = None)"
proof -
  have "poll_loop fuel (\<lambda>k. [''analytic'' \<mapsto> [''status'' \<mapsto> ''active'']])
         \<lparr>asset_activated = False, assets = [''analytic'' \<mapsto> [''status'' \<mapsto> ''activating'']],
          analytic_asset = [''status'' \<mapsto> ''activating''], requests = 0\<rparr> = None" for fuel
    by (rule poll_loop_never_exits [where asset_status = "''activating''"]) simp_all
  then show ?thesis by (simp add: poll_start_def)
qed

text \<open>
  The other way round: an asset that was active before the loop ends the loop at its first
  turn, whatever the server answers then.
\<close>

lemma poll_loop_exits_against_server:
  "poll_loop 1 (\<lambda>k. [''analytic'' \<mapsto> [''status'' \<mapsto> ''activating'']])
     \<lparr>asset_activated = False, assets = [''analytic'' \<mapsto> [''status'' \<mapsto> ''active'']],
      analytic_asset = [''status'' \<mapsto> ''active''], requests = 0\<rparr>
   = Some (Inr \<lparr>asset_activated = True, assets = [''analytic'' \<mapsto> [''status'' \<mapsto> ''activating'']],
                analytic_asset = [''status'' \<mapsto> ''active''], requests = 1\<rparr>)"
  using poll_loop_exits_on_stale_active [of _ 0] by simp

section \<open>Two orders are awaited and downloaded\<close>

lemma place_orders_appends:
  "place_orders create_order rs nb =
     nb\<lparr>list_orders := list_orders nb @ map create_order rs,
        sdk_calls := sdk_calls nb @ map (\<lambda>r. [Create_order r]) rs\<rparr>"
  by (induction rs arbitrary: nb) simp_all

lemma foldl_append_ids:
  "foldl (\<lambda>ids order. ids @ [order_id order]) acc orders = acc @ map order_id orders"
  by (induction orders arbitrary: acc) simp_all

lemma orders_before_waiting:
  "collect_order_ids (submit_orders create_order reqs
       \<lparr>list_orders = [], order_id_list = [], sdk_calls = []\<rparr>)
     = \<lparr>list_orders = map create_order (take 2 reqs),
        order_id_list = map (\<lambda>r. order_id (create_order r)) (take 2 reqs),
        sdk_calls = map (\<lambda>r. [Create_order r]) (take 2 reqs)\<rparr>"
  by (simp add: collect_order_ids_def submit_orders_def order_limit_def place_orders_appends
      foldl_append_ids)

lemma wait_for_orders_two:
  assumes "order_id_list nb = a # b # rest"
  shows "wait_for_orders nb = Inr (nb\<lparr>sdk_calls := sdk_calls nb @ [[Wait a, Wait b]]\<rparr>)"
  by (simp add: wait_for_orders_def py_index_def assms)

lemma wait_for_orders_short:
  assumes "length (order_id_list nb) < 2"
  shows "wait_for_orders nb = Inl IndexError"
  using assms by (simp add: wait_for_orders_def py_index_def split: sum.splits)

lemma download_orders_two:
  assumes "order_id_list nb = a # b # rest"
  shows "download_orders dir nb =
           Inr (nb\<lparr>sdk_calls := sdk_calls nb @ [[Download_order a dir, Download_order b dir]]\<rparr>)"
  by (simp add: download_orders_def py_index_def assms)

lemma run_orders_two_or_more:
  assumes "2 \<le> length reqs"
  shows "run_orders create_order dir reqs =
           (map (\<lambda>r. [Create_order r]) (take 2 reqs) @
              [[Wait (order_id (create_order (reqs ! 0))), Wait (order_id (create_order (reqs ! 1)))],
               [Download_order (order_id (create_order (reqs ! 0))) dir,
                Download_order (order_id (create_order (reqs ! 1))) dir]],
            None)"
proof -
  from assms obtain r0 r1 rest where reqs: "reqs = r0 # r1 # rest"
    by (cases reqs; cases "tl reqs") auto
  let ?nb1 = "\<lparr>list_orders = map create_order (take 2 reqs),
               order_id_list = map (\<lambda>r. order_id (create_order r)) (take 2 reqs),
               sdk_calls = map (\<lambda>r. [Create_order r]) (take 2 reqs)\<rparr>"
  have ids: "order_id_list ?nb1 = order_id (create_order r0) # order_id (create_order r1) # []"
    by (simp add: reqs)
  have ids': "order_id_list (?nb1\<lparr>sdk_calls := sdk_calls ?nb1 @
                [[Wait (order_id (create_order r0)), Wait (order_id (create_order r1))]]\<rparr>)
              = order_id (create_order r0) # order_id (create_order r1) # []"
    by (simp add: reqs)
  show ?thesis
    unfolding run_orders_def orders_before_waiting Let_def
    by (simp only: wait_for_orders_two [OF ids] download_orders_two [OF ids'] sum.case)
      (simp add: reqs)
qed

lemma run_orders_fewer_than_two:
  assumes "length reqs < 2"
  shows "run_orders create_order dir reqs = (map (\<lambda>r. [Create_order r]) reqs, Some IndexError)"
proof -
  let ?nb1 = "\<lparr>list_orders = map create_order (take 2 reqs),
               order_id_list = map (\<lambda>r. order_id (create_order r)) (take 2 reqs),
               sdk_calls = map (\<lambda>r. [Create_order r]) (take 2 reqs)\<rparr>"
  have "length (order_id_list ?nb1) < 2" using assms by simp
  then have "wait_for_orders ?nb1 = Inl IndexError" by (rule wait_for_orders_short)
  then show ?thesis
    unfolding run_orders_def orders_before_waiting Let_def using assms by simp
qed

text \<open>
  C9, as stated: the download step waits for and downloads the two orders whose ids are
  the first and the second element of the order id list. With one order request built
  there is one order id; \<^verbatim>\<open>order_id_list[1]\<close> raises IndexError before any wait starts.
\<close>

theorem run_orders_single_request_raises:
  "run_orders (\<lambda>r. \<lparr>order_id = ''order-of-'' @ r\<rparr>) ''data/use_case_1'' [''2019-07-01'']
     = ([[Create_order ''2019-07-01'']], Some IndexError)"
  by (simp add: run_orders_fewer_than_two)

text \<open>
  C9, amended. The submission step creates an order for each of the first \<open>min 2 n\<close> of
  the \<open>n\<close> order requests, in order, and for no other. With \<open>n \<ge> 2\<close> the next steps are
  one group of two waits, for the first and the second order id, then one group of two
  downloads of the same two orders, and nothing else. With \<open>n < 2\<close> the wait step raises
  IndexError and nothing is awaited or downloaded.
\<close>

theorem run_orders_submits_two_and_downloads_them:
  "(2 \<le> length reqs \<longrightarrow>
      run_orders create_order dir reqs =
        (map (\<lambda>r. [Create_order r]) (take (min 2 (length reqs)) reqs) @
           [[Wait (order_id (create_order (reqs ! 0))), Wait (order_id (create_order (reqs ! 1)))],
            [Download_order (order_id (create_order (reqs ! 0))) dir,
             Download_order (order_id (create_order (reqs ! 1))) dir]],
         None))
   \<and> (length reqs < 2 \<longrightarrow>
        run_orders create_order dir reqs =
          (map (\<lambda>r. [Create_order r]) (take (min 2 (length reqs)) reqs), Some IndexError))"
  using run_orders_two_or_more [of reqs create_order dir]
    run_orders_fewer_than_two [of reqs create_order dir]
  by (simp add: min_def)

theorem run_orders_submits_two_and_downloads_them_witness:
  "2 \<le> length [''d1'', ''d2'', ''d3'']
   \<and> run_orders (\<lambda>r. \<lparr>order_id = ''order-of-'' @ r\<rparr>) ''data/use_case_1'' [''d1'', ''d2'', ''d3'']
       = ([[Create_order ''d1''], [Create_order ''d2''],
           [Wait ''order-of-d1'', Wait ''order-of-d2''],
           [Download_order ''order-of-d1'' ''data/use_case_1'',
            Download_order ''order-of-d2'' ''data/use_case_1'']], None)
   \<and> length ([] :: string list) < 2
   \<and> run_orders (\<lambda>r. \<lparr>order_id = ''order-of-'' @ r\<rparr>) ''data/use_case_1'' [] = ([], Some IndexError)"
  using run_orders_submits_two_and_downloads_them
      [of "[''d1'', ''d2'', ''d3'']" "\<lambda>r. \<lparr>order_id = ''order-of-'' @ r\<rparr>" "''data/use_case_1''"]
    run_orders_submits_two_and_downloads_them
      [of "[]" "\<lambda>r. \<lparr>order_id = ''order-of-'' @ r\<rparr>" "''data/use_case_1''"]
  by simp

section \<open>The download locations accumulate across calls\<close>

lemma append_locations_present:
  assumes "\<forall>oid\<in>set ids. disk (os_path_join download_dir [oid, ''manifest.json'']) \<noteq> None"
  shows "append_locations disk download_dir ids g =
           (None, g\<lparr>locations := locations g @
              map (\<lambda>oid. map (\<lambda>f. os_path_join (data_dir g) [oid, f])
                            (the (disk (os_path_join download_dir [oid, ''manifest.json''])))) ids\<rparr>)"
  using assms
proof (induction ids arbitrary: g)
  case Nil
  show ?case by simp
next
  case (Cons oid rest)
  from Cons.prems obtain files
    where files: "disk (os_path_join download_dir [oid, ''manifest.json'']) = Some files"
    by auto
  from Cons.prems
  have rest: "\<forall>oid\<in>set rest. disk (os_path_join download_dir [oid, ''manifest.json'']) \<noteq> None"
    by simp
  show ?case
    by (simp add: files Let_def Cons.IH [OF rest])
qed

lemma append_locations_missing:
  assumes "disk (os_path_join download_dir [oid, ''manifest.json'']) = None"
  shows "append_locations disk download_dir (oid # rest) g =
           (Some (FileNotFoundError (os_path_join download_dir [oid, ''manifest.json''])), g)"
  by (simp add: assms Let_def)

lemma get_download_locations_present:
  assumes "\<forall>oid\<in>set ids. disk (os_path_join download_dir [oid, ''manifest.json'']) \<noteq> None"
  shows "get_download_locations disk download_dir ids g =
           (Inr (locations g @
              map (\<lambda>oid. map (\<lambda>f. os_path_join (data_dir g) [oid, f])
                            (the (disk (os_path_join download_dir [oid, ''manifest.json''])))) ids),
            g\<lparr>locations := locations g @
              map (\<lambda>oid. map (\<lambda>f. os_path_join (data_dir g) [oid, f])
                            (the (disk (os_path_join download_dir [oid, ''manifest.json''])))) ids\<rparr>)"
  by (simp add: get_download_locations_def append_locations_present [OF assms])

text \<open>
  C10. \<^verbatim>\<open>get_download_locations\<close> appends to the global list \<open>locations\<close> and returns
  it. When the manifests of the orders are on disk, a call returns the list as it was
  before the call followed by one list of locations for each order, and a second call
  returns all of that followed by its own lists. From the binding \<open>locations = []\<close> the
  second call returns the lists of the first call and then its own: a repeated call with
  the same order ids returns the locations of each order twice.
\<close>

theorem get_download_locations_accumulates:
  assumes "\<forall>oid\<in>set ids1. disk1 (os_path_join dir1 [oid, ''manifest.json'']) \<noteq> None"
    and "\<forall>oid\<in>set ids2. disk2 (os_path_join dir2 [oid, ''manifest.json'']) \<noteq> None"
  shows "fst (get_download_locations disk1 dir1 ids1 g)
           = Inr (locations g
                  @ map (\<lambda>oid. map (\<lambda>f. os_path_join (data_dir g) [oid, f])
                                   (the (disk1 (os_path_join dir1 [oid, ''manifest.json''])))) ids1)
         \<and> fst (get_download_locations disk2 dir2 ids2 (snd (get_download_locations disk1 dir1 ids1 g)))
           = Inr (locations g
                  @ map (\<lambda>oid. map (\<lambda>f. os_path_join (data_dir g) [oid, f])
                                   (the (disk1 (os_path_join dir1 [oid, ''manifest.json''])))) ids1
                  @ map (\<lambda>oid. map (\<lambda>f. os_path_join (data_dir g) [oid, f])
                                   (the (disk2 (os_path_join dir2 [oid, ''manifest.json''])))) ids2)
         \<and> (locations g = [] \<longrightarrow>
              fst (get_download_locations disk1 dir1 ids1
                     (snd (get_download_locations disk1 dir1 ids1 g)))
                = Inr (map (\<lambda>oid. map (\<lambda>f. os_path_join (data_dir g) [oid, f])
                                      (the (disk1 (os_path_join dir1 [oid, ''manifest.json''])))) ids1
                       @ map (\<lambda>oid. map (\<lambda>f. os_path_join (data_dir g) [oid, f])
                                        (the (disk1 (os_path_join dir1 [oid, ''manifest.json''])))) ids1))"
  by (simp add: get_download_locations_present [OF assms(1)] get_download_locations_present [OF assms(2)])

theorem get_download_locations_accumulates_witness:
  "[''data/use_case_1/o1/manifest.json'' \<mapsto> [''composite.tif'', ''composite_udm2.tif''],
    ''data/use_case_1/o2/manifest.json'' \<mapsto> [''composite.tif'']]
      (os_path_join ''data/use_case_1'' [''o1'', ''manifest.json'']) \<noteq> None
   \<and> [''data/use_case_1/o1/manifest.json'' \<mapsto> [''composite.tif'', ''composite_udm2.tif''],
      ''data/use_case_1/o2/manifest.json'' \<mapsto> [''composite.tif'']]
      (os_path_join ''data/use_case_1'' [''o2'', ''manifest.json'']) \<noteq> None
   \<and> fst (get_download_locations
        [''data/use_case_1/o1/manifest.json'' \<mapsto> [''composite.tif'', ''composite_udm2.tif''],
         ''data/use_case_1/o2/manifest.json'' \<mapsto> [''composite.tif'']]
        ''data/use_case_1'' [''o1'', ''o2'']
        (snd (get_download_locations
          [''data/use_case_1/o1/manifest.json'' \<mapsto> [''composite.tif'', ''composite_udm2.tif''],
           ''data/use_case_1/o2/manifest.json'' \<mapsto> [''composite.tif'']]
          ''data/use_case_1'' [''o1'', ''o2''] \<lparr>data_dir = ''data/use_case_1'', locations = []\<rparr>)))
     = Inr [[''data/use_case_1/o1/composite.tif'', ''data/use_case_1/o1/composite_udm2.tif''],
            [''data/use_case_1/o2/composite.tif''],
            [''data/use_case_1/o1/composite.tif'', ''data/use_case_1/o1/composite_udm2.tif''],
            [''data/use_case_1/o2/composite.tif'']]"
  using get_download_locations_accumulates
    [of "[''o1'', ''o2'']"
        "[''data/use_case_1/o1/manifest.json'' \<mapsto> [''composite.tif'', ''composite_udm2.tif''],
          ''data/use_case_1/o2/manifest.json'' \<mapsto> [''composite.tif'']]"
        "''data/use_case_1''"
        "[''o1'', ''o2'']"
        "[''data/use_case_1/o1/manifest.json'' \<mapsto> [''composite.tif'', ''composite_udm2.tif''],
          ''data/use_case_1/o2/manifest.json'' \<mapsto> [''composite.tif'']]"
        "''data/use_case_1''" "\<lparr>data_dir = ''data/use_case_1'', locations = []\<rparr>"]
  by (simp add: os_path_join_def path_join2_def)

end
